theory Spec2Isabelle
  imports Main
begin

section \<open>update\_sit\_status.py: Jenkins release to Jira field status\<close>

text \<open>
  The script reads the descriptor of a Jenkins build over HTTP, classifies its display name
  and, for a labelled successful release, searches Jira and updates one custom field of every
  issue found. Everything it does is a call to an external service or a log line, so the model
  returns, for each function of the source, the list of calls and log lines it made (in
  order) together with its result: \<open>Inr\<close> a value, or \<open>Inl\<close> the exception that left
  the function.

  Strings are \<open>string\<close>; a character stands for a code point below 256. On these, the
  class \<open>\d\<close> of Python's \<open>re\<close> is exactly the ten ASCII digits.
\<close>

subsection \<open>Values, exceptions and observable events\<close>

text \<open>
  Exceptions. \<open>AttributeError\<close> carries the attribute that was looked up on \<open>None\<close>,
  \<open>KeyError\<close> the missing key, \<open>JIRAError\<close> its text (what \<open>str(err)\<close> gives).
  \<open>RequestException\<close> stands for what \<open>requests.get\<close> raises (connection failure,
  timeout, invalid URL), \<open>HTTPError\<close> for what \<open>raise_for_status\<close> raises,
  \<open>JSONDecodeError\<close> for what \<open>response.json()\<close> raises.
\<close>

datatype py_error =
    AssertionError
  | AttributeError string
  | KeyError string
  | TypeError
  | RequestException string
  | HTTPError nat
  | JSONDecodeError
  | JIRAError string

text \<open>
  What \<open>response.json()\<close> can return. A dictionary is the list of its items (its keys are
  distinct). Floating point numbers are left out: the script only subscripts the value with
  two string keys, matches one item against a pattern and compares another with a string.
\<close>

datatype pyval =
    PNone
  | PBool bool
  | PInt int
  | PStr string
  | PList "pyval list"
  | PDict "(string \<times> pyval) list"

text \<open>The calls the script makes to the outside, and its log lines.\<close>

datatype event =
    LogInfo string
  | LogError string
  | HttpGet string nat
  | JiraLogin "string option" "string option" "string option"
  | JiraSearch string
  | IssueUpdate string string string

text \<open>
  \<open>HttpGet url timeout\<close> is \<open>requests.get(url, timeout=timeout)\<close>;
  \<open>JiraLogin url user passwd\<close> is \<open>JIRA(url, basic_auth=(user, passwd))\<close>;
  \<open>JiraSearch jql\<close> is \<open>search_issues(jql)\<close>;
  \<open>IssueUpdate key field value\<close> is
  \<open>issue.update(fields={field: {'value': value}})\<close> on the issue with that key.
\<close>

fun is_jira_event :: "event \<Rightarrow> bool" where
  "is_jira_event (JiraLogin u n p) = True"
| "is_jira_event (JiraSearch q) = True"
| "is_jira_event (IssueUpdate k f v) = True"
| "is_jira_event (LogInfo m) = False"
| "is_jira_event (LogError m) = False"
| "is_jira_event (HttpGet u t) = False"

fun is_issue_update :: "event \<Rightarrow> bool" where
  "is_issue_update (IssueUpdate k f v) = True"
| "is_issue_update (LogInfo m) = False"
| "is_issue_update (LogError m) = False"
| "is_issue_update (HttpGet u t) = False"
| "is_issue_update (JiraLogin u n p) = False"
| "is_issue_update (JiraSearch q) = False"

subsection \<open>The outside world\<close>

text \<open>
  The libraries \<open>requests\<close> and \<open>jira\<close> are not part of the repository. What their calls
  answer is a parameter of the model: a response says whether \<open>raise_for_status()\<close> raises
  (\<open>None\<close>: it returns) and what \<open>json()\<close> gives; an issue says whether its \<open>update\<close>
  raises; a client says what a search returns.
\<close>

record response =
  raise_for_status :: "py_error option"
  json :: "py_error + pyval"

record issue =
  key :: string
  update :: "string \<Rightarrow> string \<Rightarrow> py_error option"

record jira_client =
  search_issues :: "string \<Rightarrow> py_error + issue list"

record world =
  requests_get :: "string \<Rightarrow> nat \<Rightarrow> py_error + response"
  JIRA :: "string option \<Rightarrow> string option \<times> string option \<Rightarrow> py_error + jira_client"

subsection \<open>Command line\<close>

text \<open>
  \<open>os.getenv\<close> gives \<open>None\<close> for a variable that is not set, so every argument is a
  \<open>string option\<close>.
\<close>

record args =
  jenkins_url :: "string option"
  jira_url :: "string option"
  jira_user :: "string option"
  jira_passwd :: "string option"

record argument =
  flag :: string
  default_value :: "string option"
  help_text :: string

definition getenv :: "(string \<rightharpoonup> string) \<Rightarrow> string \<Rightarrow> string option" where
  "getenv environ name = environ name"

text \<open>The four \<open>add_argument\<close> calls of \<open>JiraStatusUpdater.__init__\<close>, in order.\<close>

definition init_arguments :: "(string \<rightharpoonup> string) \<Rightarrow> argument list" where
  "init_arguments environ =
     [\<lparr>flag = ''--jenkins_url'', default_value = getenv environ ''JENKINS_URL'',
        help_text = ''URL for Jenkins. Default: $JENKINS_URL''\<rparr>,
      \<lparr>flag = ''--jira_url'', default_value = getenv environ ''JIRA_URL'',
        help_text = ''Base URL of the Jira server. Default: $JIRA_URL''\<rparr>,
      \<lparr>flag = ''--jira_user'', default_value = getenv environ ''JIRA_USER'',
        help_text = ''Jira username. Default: $JIRA_USER''\<rparr>,
      \<lparr>flag = ''--jira_passwd'', default_value = getenv environ ''JIRA_PASSWD'',
        help_text = ''Jira password. Default: $JIRA_PASSWD''\<rparr>]"

text \<open>
  Modelled from the spec: the argument parser of the \<open>Batch\<close> base class
  (\<open>landg.batch\<close>, not in the repository) and its parsing of the command line. Each option
  takes the value supplied on the command line, and its default when it is not supplied.
  \<open>cli\<close> maps the flags that were supplied to their values.
\<close>

definition parse_option :: "argument list \<Rightarrow> (string \<rightharpoonup> string) \<Rightarrow> string \<Rightarrow> string option" where
  "parse_option arguments cli f =
     (case cli f of
        Some v \<Rightarrow> Some v
      | None \<Rightarrow> (case find (\<lambda>a. flag a = f) arguments of
                   None \<Rightarrow> None
                 | Some a \<Rightarrow> default_value a))"

definition parse_args :: "(string \<rightharpoonup> string) \<Rightarrow> (string \<rightharpoonup> string) \<Rightarrow> args" where
  "parse_args environ cli =
     (let arguments = init_arguments environ in
      \<lparr>jenkins_url = parse_option arguments cli ''--jenkins_url'',
       jira_url = parse_option arguments cli ''--jira_url'',
       jira_user = parse_option arguments cli ''--jira_user'',
       jira_passwd = parse_option arguments cli ''--jira_passwd''\<rparr>)"

subsection \<open>Python primitives the script uses\<close>

definition endswith :: "string \<Rightarrow> string \<Rightarrow> bool" where
  "endswith s suffix =
     (length suffix \<le> length s \<and> drop (length s - length suffix) s = suffix)"

text \<open>\<open>str(n)\<close> for a natural number, in decimal, and for an integer.\<close>

definition digit_char :: "nat \<Rightarrow> char" where
  "digit_char d = ''0123456789'' ! (d mod 10)"

fun str_nat :: "nat \<Rightarrow> string" where
  "str_nat n = (if n < 10 then [digit_char n] else str_nat (n div 10) @ [digit_char (n mod 10)])"

declare str_nat.simps [simp del]

definition str_int :: "int \<Rightarrow> string" where
  "str_int i = (if i < 0 then CHR ''-'' # str_nat (nat (- i)) else str_nat (nat i))"

text \<open>\<open>d[k]\<close>: only a dictionary can be subscripted with a string.\<close>

fun getitem :: "pyval \<Rightarrow> string \<Rightarrow> py_error + pyval" where
  "getitem (PDict items) k =
     (case map_of items k of None \<Rightarrow> Inl (KeyError k) | Some v \<Rightarrow> Inr v)"
| "getitem PNone k = Inl TypeError"
| "getitem (PBool b) k = Inl TypeError"
| "getitem (PInt i) k = Inl TypeError"
| "getitem (PStr s) k = Inl TypeError"
| "getitem (PList xs) k = Inl TypeError"

text \<open>
  \<open>re.compile(r"^#\d*$").match(s)\<close>: a hash, then as many digits as there are, then the
  end of the string; \<open>$\<close> also matches just before a newline that ends the string.
\<close>

definition is_digit :: "char \<Rightarrow> bool" where
  "is_digit c = (c \<in> set ''0123456789'')"

definition build_number_pattern_match :: "string \<Rightarrow> bool" where
  "build_number_pattern_match s =
     (case s of
        [] \<Rightarrow> False
      | c # rest \<Rightarrow>
          c = CHR ''#'' \<and>
          (let tail = dropWhile is_digit rest in tail = [] \<or> tail = [CHR 0x0A]))"

subsection \<open>jenkins\_query\<close>

definition jenkins_query :: "world \<Rightarrow> string option \<Rightarrow> event list \<times> (py_error + pyval)" where
  "jenkins_query w url =
     (case url of
        None \<Rightarrow> ([], Inl (AttributeError ''endswith''))
      | Some u \<Rightarrow>
          if \<not> endswith u ''/'' then ([], Inl AssertionError)
          else
            let ev = [LogInfo (''Fetching Jenkins data from '' @ u),
                      HttpGet (u @ ''api/json'') 60]
            in (case requests_get w (u @ ''api/json'') 60 of
                  Inl e \<Rightarrow> (ev, Inl e)
                | Inr r \<Rightarrow>
                    (case raise_for_status r of
                       Some e \<Rightarrow> (ev, Inl e)
                     | None \<Rightarrow> (ev, json r))))"

subsection \<open>JiraStatusUpdater\<close>

text \<open>
  \<open>jira_login\<close> catches \<open>JIRAError\<close> only, logs it and falls off the end of the function:
  it returns \<open>None\<close>. Any other exception of the constructor leaves the function.
\<close>

definition jira_login :: "world \<Rightarrow> args \<Rightarrow> event list \<times> (py_error + jira_client option)" where
  "jira_login w a =
     (let call = JiraLogin (jira_url a) (jira_user a) (jira_passwd a) in
      case JIRA w (jira_url a) (jira_user a, jira_passwd a) of
        Inr jira \<Rightarrow> ([call, LogInfo ''Successfully logged into jira''], Inr (Some jira))
      | Inl (JIRAError err) \<Rightarrow>
          ([call, LogError (''Login to JIRA failed because '' @ err)], Inr None)
      | Inl e \<Rightarrow> ([call], Inl e))"

text \<open>The loop \<open>for issue in issues: issue.update(...)\<close>; the first exception ends it.\<close>

fun update_issues :: "issue list \<Rightarrow> string \<Rightarrow> string \<Rightarrow> event list \<times> (py_error + unit)" where
  "update_issues [] field new_value = ([], Inr ())"
| "update_issues (i # rest) field new_value =
     (case update i field new_value of
        Some e \<Rightarrow> ([IssueUpdate (key i) field new_value], Inl e)
      | None \<Rightarrow>
          (case update_issues rest field new_value of
             (ev, r) \<Rightarrow> (IssueUpdate (key i) field new_value # ev, r)))"

definition jql :: "string \<Rightarrow> int \<Rightarrow> string" where
  "jql release_name customfield_number =
     ''fixVersion='' @ release_name @ '' AND cf['' @ str_int customfield_number @ '']=''
       @ [CHR 0x22] @ ''Pending automated test'' @ [CHR 0x22]"

definition update_jira_status ::
  "world \<Rightarrow> args \<Rightarrow> string \<Rightarrow> int \<Rightarrow> string \<Rightarrow> event list \<times> (py_error + unit)" where
  "update_jira_status w a release_name customfield_number new_value =
     (let ev0 = [LogInfo ''Searching for Jira issues...''] in
      case jira_login w a of
        (ev1, Inl e) \<Rightarrow> (ev0 @ ev1, Inl e)
      | (ev1, Inr None) \<Rightarrow> (ev0 @ ev1, Inl (AttributeError ''search_issues''))
      | (ev1, Inr (Some jira)) \<Rightarrow>
          let q = jql release_name customfield_number;
              ev2 = ev0 @ ev1 @ [JiraSearch q]
          in (case search_issues jira q of
                Inl e \<Rightarrow> (ev2, Inl e)
              | Inr issues \<Rightarrow>
                  if issues \<noteq> [] then
                    let ev3 = ev2 @ [LogInfo (''Updating '' @ str_nat (length issues)
                                 @ '' Jira issues to Success (automated regression test)'')]
                    in (case update_issues issues
                              (''customfield_'' @ str_int customfield_number) new_value of
                          (ev4, Inl e) \<Rightarrow> (ev3 @ ev4, Inl e)
                        | (ev4, Inr u) \<Rightarrow>
                            (ev3 @ ev4 @ [LogInfo (str_nat (length issues)
                                           @ '' Jira issues were updated'')], Inr ()))
                  else (ev2 @ [LogInfo (''No issues found in release: '' @ release_name)],
                        Inr ())))"

text \<open>
  \<open>pattern.match\<close> raises \<open>TypeError\<close> on anything that is not a string. The item
  \<open>'result'\<close> is only read when the display name does not match.
\<close>

definition task1_check_jenkins_release :: "world \<Rightarrow> args \<Rightarrow> event list \<times> (py_error + unit)" where
  "task1_check_jenkins_release w a =
     (case jenkins_query w (jenkins_url a) of
        (ev, Inl e) \<Rightarrow> (ev, Inl e)
      | (ev, Inr jenkins_data) \<Rightarrow>
          (case getitem jenkins_data ''displayName'' of
             Inl e \<Rightarrow> (ev, Inl e)
           | Inr (PStr build_display_name) \<Rightarrow>
               if build_number_pattern_match build_display_name then
                 (ev @ [LogInfo (build_display_name
                                  @ '' is an unlabelled release. Nothing to do'')], Inr ())
               else
                 (case getitem jenkins_data ''result'' of
                    Inl e \<Rightarrow> (ev, Inl e)
                  | Inr result \<Rightarrow>
                      if result = PStr ''SUCCESS'' then
                        (case update_jira_status w a build_display_name 10803
                                ''Success (automated regression test)'' of
                           (ev', r) \<Rightarrow> (ev @ ev', r))
                      else
                        (ev @ [LogError (''Labelled release: '' @ build_display_name
                                          @ '' failed. Nothing to do'')], Inr ()))
           | Inr other \<Rightarrow> (ev, Inl TypeError)))"

subsection \<open>Sample runs\<close>

text \<open>
  A Jenkins that answers every request with the descriptor \<open>data\<close>, a Jira whose login
  gives \<open>login\<close>, a client whose every search returns \<open>issues\<close>, issues whose update
  succeeds.
\<close>

definition sample_build :: "string \<Rightarrow> pyval \<Rightarrow> pyval" where
  "sample_build name result = PDict [(''displayName'', PStr name), (''result'', result)]"

definition sample_issue :: "string \<Rightarrow> issue" where
  "sample_issue k = \<lparr>key = k, update = (\<lambda>field new_value. None)\<rparr>"

definition sample_client :: "issue list \<Rightarrow> jira_client" where
  "sample_client issues = \<lparr>search_issues = (\<lambda>q. Inr issues)\<rparr>"

definition sample_world :: "py_error + response \<Rightarrow> py_error + jira_client \<Rightarrow> world" where
  "sample_world reply login = \<lparr>requests_get = (\<lambda>url timeout. reply), JIRA = (\<lambda>url auth. login)\<rparr>"

definition sample_reply :: "pyval \<Rightarrow> py_error + response" where
  "sample_reply data = Inr \<lparr>raise_for_status = None, json = Inr data\<rparr>"

definition sample_args :: args where
  "sample_args =
     \<lparr>jenkins_url = Some ''http://jenkins/job/release/lastBuild/'',
      jira_url = Some ''http://jira'',
      jira_user = Some ''robot'',
      jira_passwd = Some ''secret''\<rparr>"

section \<open>Properties\<close>

subsection \<open>Auxiliary facts\<close>

text \<open>Evaluating \<open>str\<close> on numerals; the query and the field name for field 10803.\<close>

lemma str_nat_small: "n < 10 \<Longrightarrow> str_nat n = [digit_char n]"
  by (simp add: str_nat.simps [of n])

lemma str_nat_large:
  "10 \<le> n \<Longrightarrow> str_nat n = str_nat (n div 10) @ [digit_char (n mod 10)]"
  by (simp add: str_nat.simps [of n])

lemma str_nat_10803: "str_nat 10803 = ''10803''"
  by (simp add: str_nat_small str_nat_large digit_char_def)

lemma str_int_10803: "str_int 10803 = ''10803''"
  by (simp add: str_int_def str_nat_10803)

lemma jql_10803:
  "jql name 10803 = ''fixVersion='' @ name @ '' AND cf[10803]='' @ [CHR 0x22]
     @ ''Pending automated test'' @ [CHR 0x22]"
  by (simp add: jql_def str_int_10803)

lemma endswith_slash: "endswith u ''/'' \<longleftrightarrow> u \<noteq> [] \<and> last u = CHR ''/''"
proof (cases u rule: rev_cases)
  case Nil
  then show ?thesis by (simp add: endswith_def)
next
  case (snoc ys y)
  then show ?thesis by (simp add: endswith_def)
qed

text \<open>What each function of the script does on each of its paths.\<close>

lemma jenkins_query_no_jira: "filter is_jira_event (fst (jenkins_query w url)) = []"
  by (simp add: jenkins_query_def Let_def split: option.splits sum.splits)

lemma update_issues_ok:
  "\<forall>i \<in> set issues. update i field new_value = None \<Longrightarrow>
   update_issues issues field new_value =
     (map (\<lambda>i. IssueUpdate (key i) field new_value) issues, Inr ())"
  by (induction issues) simp_all

lemma update_issues_events:
  "e \<in> set (fst (update_issues issues field new_value)) \<Longrightarrow>
   \<exists>k. e = IssueUpdate k field new_value"
  by (induction issues arbitrary: e) (auto split: option.splits prod.splits)


lemma jira_login_ok:
  "JIRA w (jira_url a) (jira_user a, jira_passwd a) = Inr jira \<Longrightarrow>
   jira_login w a =
     ([JiraLogin (jira_url a) (jira_user a) (jira_passwd a),
       LogInfo ''Successfully logged into jira''], Inr (Some jira))"
  by (simp add: jira_login_def)

lemma jira_login_JIRAError:
  "JIRA w (jira_url a) (jira_user a, jira_passwd a) = Inl (JIRAError err) \<Longrightarrow>
   jira_login w a =
     ([JiraLogin (jira_url a) (jira_user a) (jira_passwd a),
       LogError (''Login to JIRA failed because '' @ err)], Inr None)"
  by (simp add: jira_login_def)

lemma update_jira_status_login_failed:
  "JIRA w (jira_url a) (jira_user a, jira_passwd a) = Inl (JIRAError err) \<Longrightarrow>
   update_jira_status w a release_name customfield_number new_value =
     ([LogInfo ''Searching for Jira issues...'',
       JiraLogin (jira_url a) (jira_user a) (jira_passwd a),
       LogError (''Login to JIRA failed because '' @ err)],
      Inl (AttributeError ''search_issues''))"
  by (simp add: update_jira_status_def jira_login_JIRAError)

lemma update_jira_status_found:
  assumes "JIRA w (jira_url a) (jira_user a, jira_passwd a) = Inr jira"
    and "search_issues jira (jql release_name customfield_number) = Inr issues"
    and "\<forall>i \<in> set issues.
           update i (''customfield_'' @ str_int customfield_number) new_value = None"
  shows "update_jira_status w a release_name customfield_number new_value =
     ([LogInfo ''Searching for Jira issues...'',
       JiraLogin (jira_url a) (jira_user a) (jira_passwd a),
       LogInfo ''Successfully logged into jira'',
       JiraSearch (jql release_name customfield_number)] @
      (if issues = [] then [LogInfo (''No issues found in release: '' @ release_name)]
       else [LogInfo (''Updating '' @ str_nat (length issues)
                       @ '' Jira issues to Success (automated regression test)'')] @
            map (\<lambda>i. IssueUpdate (key i) (''customfield_'' @ str_int customfield_number)
                        new_value) issues @
            [LogInfo (str_nat (length issues) @ '' Jira issues were updated'')]),
      Inr ())"
  using assms
  by (simp add: update_jira_status_def jira_login_ok update_issues_ok Let_def)

lemma task1_unlabelled:
  assumes "jenkins_query w (jenkins_url a) = (ev, Inr jenkins_data)"
    and "getitem jenkins_data ''displayName'' = Inr (PStr name)"
    and "build_number_pattern_match name"
  shows "task1_check_jenkins_release w a =
     (ev @ [LogInfo (name @ '' is an unlabelled release. Nothing to do'')], Inr ())"
  using assms by (simp add: task1_check_jenkins_release_def)

lemma task1_labelled_success:
  assumes "jenkins_query w (jenkins_url a) = (ev, Inr jenkins_data)"
    and "getitem jenkins_data ''displayName'' = Inr (PStr name)"
    and "\<not> build_number_pattern_match name"
    and "getitem jenkins_data ''result'' = Inr (PStr ''SUCCESS'')"
  shows "task1_check_jenkins_release w a =
     (ev @ fst (update_jira_status w a name 10803 ''Success (automated regression test)''),
      snd (update_jira_status w a name 10803 ''Success (automated regression test)''))"
  using assms by (simp add: task1_check_jenkins_release_def split: prod.splits)

lemma task1_labelled_failed:
  assumes "jenkins_query w (jenkins_url a) = (ev, Inr jenkins_data)"
    and "getitem jenkins_data ''displayName'' = Inr (PStr name)"
    and "\<not> build_number_pattern_match name"
    and "getitem jenkins_data ''result'' = Inr result"
    and "result \<noteq> PStr ''SUCCESS''"
  shows "task1_check_jenkins_release w a =
     (ev @ [LogError (''Labelled release: '' @ name @ '' failed. Nothing to do'')], Inr ())"
  using assms by (simp add: task1_check_jenkins_release_def)

text \<open>A run that calls Jira has fetched a labelled build with result \<open>SUCCESS\<close>.\<close>

lemma jenkins_query_events:
  "jenkins_query w url = (ev, r) \<Longrightarrow> filter is_jira_event ev = []"
  using jenkins_query_no_jira [of w url] by simp

lemma task1_jira_only_if:
  assumes "filter is_jira_event (fst (task1_check_jenkins_release w a)) \<noteq> []"
  shows "\<exists>ev jenkins_data name.
           jenkins_query w (jenkins_url a) = (ev, Inr jenkins_data) \<and>
           getitem jenkins_data ''displayName'' = Inr (PStr name) \<and>
           \<not> build_number_pattern_match name \<and>
           getitem jenkins_data ''result'' = Inr (PStr ''SUCCESS'')"
proof -
  obtain ev r where q: "jenkins_query w (jenkins_url a) = (ev, r)"
    by (cases "jenkins_query w (jenkins_url a)")
  have nj: "filter is_jira_event ev = []"
    using q by (rule jenkins_query_events)
  show ?thesis
  proof (cases r)
    case (Inl e)
    with q nj assms show ?thesis by (simp add: task1_check_jenkins_release_def)
  next
    case (Inr jenkins_data)
    note data = this
    show ?thesis
    proof (cases "getitem jenkins_data ''displayName''")
      case (Inl e)
      with q nj data assms show ?thesis by (simp add: task1_check_jenkins_release_def)
    next
      case (Inr dn)
      note dn = this
      show ?thesis
      proof (cases dn)
        case (PStr name)
        note name = this
        show ?thesis
        proof (cases "build_number_pattern_match name")
          case True
          with q nj data dn name assms show ?thesis
            by (simp add: task1_check_jenkins_release_def)
        next
          case False
          note labelled = this
          show ?thesis
          proof (cases "getitem jenkins_data ''result''")
            case (Inl e)
            with q nj data dn name labelled assms show ?thesis
              by (simp add: task1_check_jenkins_release_def)
          next
            case (Inr result)
            show ?thesis
            proof (cases "result = PStr ''SUCCESS''")
              case True
              with q data dn name labelled Inr show ?thesis by simp
            next
              case False
              with q nj data dn name labelled Inr assms show ?thesis
                by (simp add: task1_check_jenkins_release_def)
            qed
          qed
        qed
      qed (use q nj data dn assms in \<open>simp_all add: task1_check_jenkins_release_def\<close>)
    qed
  qed
qed


text \<open>The calls to Jira in a run all come from \<open>update_jira_status\<close>.\<close>

lemma update_issues_result_events:
  "update_issues issues field new_value = (ev, r) \<Longrightarrow> e \<in> set ev \<Longrightarrow>
   \<exists>k. e = IssueUpdate k field new_value"
  using update_issues_events [of e issues field new_value] by simp

lemma update_jira_status_events:
  assumes "e \<in> set (fst (update_jira_status w a release_name customfield_number new_value))"
  shows "(\<forall>k f v. e = IssueUpdate k f v \<longrightarrow>
            f = ''customfield_'' @ str_int customfield_number \<and> v = new_value) \<and>
         (\<forall>q. e = JiraSearch q \<longrightarrow> q = jql release_name customfield_number)"
  using assms
  by (auto simp: update_jira_status_def jira_login_def Let_def
      split: sum.splits option.splits prod.splits py_error.splits if_splits
      dest: update_issues_result_events)

lemma task1_jira_event_origin:
  assumes "e \<in> set (fst (task1_check_jenkins_release w a))" and "is_jira_event e"
  shows "\<exists>name. e \<in> set (fst (update_jira_status w a name 10803
                                 ''Success (automated regression test)''))"
proof -
  from assms have "filter is_jira_event (fst (task1_check_jenkins_release w a)) \<noteq> []"
    by (auto simp: filter_empty_conv)
  then obtain ev jenkins_data name where
    q: "jenkins_query w (jenkins_url a) = (ev, Inr jenkins_data)" and
    d: "getitem jenkins_data ''displayName'' = Inr (PStr name)" and
    m: "\<not> build_number_pattern_match name" and
    r: "getitem jenkins_data ''result'' = Inr (PStr ''SUCCESS'')"
    using task1_jira_only_if by blast
  have "e \<notin> set ev"
    using jenkins_query_events [OF q] assms(2) by (auto simp: filter_empty_conv)
  with assms(1) task1_labelled_success [OF q d m r] show ?thesis by auto
qed

text \<open>The sample runs, and the pattern on sample names.\<close>

lemma sample_jenkins_query:
  "jenkins_query (sample_world (sample_reply jenkins_data) login) (jenkins_url sample_args) =
     ([LogInfo ''Fetching Jenkins data from http://jenkins/job/release/lastBuild/'',
       HttpGet ''http://jenkins/job/release/lastBuild/api/json'' 60], Inr jenkins_data)"
  by (simp add: jenkins_query_def sample_world_def sample_reply_def sample_args_def
      endswith_def)

lemma sample_displayName: "getitem (sample_build name result) ''displayName'' = Inr (PStr name)"
  by (simp add: sample_build_def)

lemma sample_result: "getitem (sample_build name result) ''result'' = Inr result"
  by (simp add: sample_build_def)

lemma not_match_Release: "\<not> build_number_pattern_match ''Release-2.3''"
  by (simp add: build_number_pattern_match_def)

lemma match_123: "build_number_pattern_match ''#123''"
  by (simp add: build_number_pattern_match_def is_digit_def)

lemma match_digits:
  "list_all is_digit ds \<Longrightarrow> build_number_pattern_match (CHR ''#'' # ds)"
  by (simp add: build_number_pattern_match_def dropWhile_eq_Nil_conv list_all_iff)

text \<open>
  The decimal rendering determines the number: a logged count identifies the number of
  issues it was computed from.
\<close>

lemma digit_char_inject:
  assumes "a < 10" and "b < 10" and "digit_char a = digit_char b"
  shows "a = b"
proof -
  have d: "distinct ''0123456789''"
    by simp
  have "''0123456789'' ! a = ''0123456789'' ! b"
    using assms by (simp add: digit_char_def)
  with d assms(1,2) show ?thesis
    by (simp add: nth_eq_iff_index_eq)
qed

lemma str_nat_not_Nil: "str_nat n \<noteq> []"
  by (cases "n < 10") (simp_all add: str_nat_small str_nat_large)

lemma str_nat_inject: "str_nat m = str_nat n \<Longrightarrow> m = n"
proof (induction m arbitrary: n rule: str_nat.induct)
  case (1 m)
  show ?case
  proof (cases "m < 10")
    case True
    note small_m = this
    show ?thesis
    proof (cases "n < 10")
      case True
      with small_m "1.prems" show ?thesis
        by (simp add: str_nat_small digit_char_inject)
    next
      case False
      with small_m "1.prems" str_nat_not_Nil [of "n div 10"] show ?thesis
        by (simp add: str_nat_small str_nat_large)
    qed
  next
    case False
    note large_m = this
    show ?thesis
    proof (cases "n < 10")
      case True
      with large_m "1.prems" str_nat_not_Nil [of "m div 10"] show ?thesis
        by (simp add: str_nat_small str_nat_large)
    next
      case False
      with large_m "1.prems"
      have q: "str_nat (m div 10) = str_nat (n div 10)"
        and r: "digit_char (m mod 10) = digit_char (n mod 10)"
        by (simp_all add: str_nat_large)
      from "1.IH" [OF large_m q] have "m div 10 = n div 10" .
      moreover from r have "m mod 10 = n mod 10"
        by (simp add: digit_char_inject)
      ultimately show ?thesis
        by (metis div_mult_mod_eq)
    qed
  qed
qed

lemma sample_update_jira_status:
  "update_jira_status
     (sample_world reply (Inr (sample_client [sample_issue ''ECS2-2087''])))
     sample_args ''Release-2.3'' 10803 ''Success (automated regression test)'' =
   ([LogInfo ''Searching for Jira issues...'',
     JiraLogin (Some ''http://jira'') (Some ''robot'') (Some ''secret''),
     LogInfo ''Successfully logged into jira'',
     JiraSearch (''fixVersion=Release-2.3 AND cf[10803]='' @ [CHR 0x22]
                   @ ''Pending automated test'' @ [CHR 0x22]),
     LogInfo ''Updating 1 Jira issues to Success (automated regression test)'',
     IssueUpdate ''ECS2-2087'' ''customfield_10803'' ''Success (automated regression test)'',
     LogInfo ''1 Jira issues were updated''], Inr ())"
proof -
  let ?w = "sample_world reply (Inr (sample_client [sample_issue ''ECS2-2087'']))"
  have l: "JIRA ?w (jira_url sample_args) (jira_user sample_args, jira_passwd sample_args) =
             Inr (sample_client [sample_issue ''ECS2-2087''])"
    by (simp add: sample_world_def)
  have s: "search_issues (sample_client [sample_issue ''ECS2-2087''])
             (jql ''Release-2.3'' 10803) = Inr [sample_issue ''ECS2-2087'']"
    by (simp add: sample_client_def)
  have u: "\<forall>i \<in> set [sample_issue ''ECS2-2087''].
             update i (''customfield_'' @ str_int 10803)
               ''Success (automated regression test)'' = None"
    by (simp add: sample_issue_def)
  show ?thesis
    using update_jira_status_found [OF l s u]
    by (simp add: jql_10803 str_int_10803 sample_args_def sample_issue_def
        str_nat_small digit_char_def)
qed

subsection \<open>The labelled, successful release\<close>

text \<open>
  Claim C1. For a labelled build whose result is \<open>SUCCESS\<close>, \<open>update_jira_status\<close> is
  called with the display name as release name. When the login succeeds, the search succeeds
  and every update succeeds, the run logs in, issues one search whose query filters on
  \<open>fixVersion\<close> equal to the release name and on custom field 10803 equal to
  "Pending automated test", then updates \<open>customfield_10803\<close> of every issue returned, in
  order, to the target value, and both count messages carry the number of issues returned;
  with no issue returned only the notice is logged.
\<close>

theorem labelled_success_updates_found_issues:
  assumes "jenkins_query w (jenkins_url a) = (ev, Inr jenkins_data)"
    and "getitem jenkins_data ''displayName'' = Inr (PStr name)"
    and "\<not> build_number_pattern_match name"
    and "getitem jenkins_data ''result'' = Inr (PStr ''SUCCESS'')"
    and "JIRA w (jira_url a) (jira_user a, jira_passwd a) = Inr jira"
    and "search_issues jira
           (''fixVersion='' @ name @ '' AND cf[10803]='' @ [CHR 0x22]
              @ ''Pending automated test'' @ [CHR 0x22]) = Inr issues"
    and "\<forall>i \<in> set issues.
           update i ''customfield_10803'' ''Success (automated regression test)'' = None"
  shows "task1_check_jenkins_release w a =
           (ev @ fst (update_jira_status w a name 10803
                        ''Success (automated regression test)''),
            snd (update_jira_status w a name 10803
                   ''Success (automated regression test)'')) \<and>
         update_jira_status w a name 10803 ''Success (automated regression test)'' =
           ([LogInfo ''Searching for Jira issues...'',
             JiraLogin (jira_url a) (jira_user a) (jira_passwd a),
             LogInfo ''Successfully logged into jira'',
             JiraSearch (''fixVersion='' @ name @ '' AND cf[10803]='' @ [CHR 0x22]
                           @ ''Pending automated test'' @ [CHR 0x22])] @
            (if issues = [] then [LogInfo (''No issues found in release: '' @ name)]
             else [LogInfo (''Updating '' @ str_nat (length issues)
                             @ '' Jira issues to Success (automated regression test)'')] @
                  map (\<lambda>i. IssueUpdate (key i) ''customfield_10803''
                              ''Success (automated regression test)'') issues @
                  [LogInfo (str_nat (length issues) @ '' Jira issues were updated'')]),
            Inr ())"
proof
  show "task1_check_jenkins_release w a =
           (ev @ fst (update_jira_status w a name 10803
                        ''Success (automated regression test)''),
            snd (update_jira_status w a name 10803
                   ''Success (automated regression test)''))"
    using assms(1-4) by (rule task1_labelled_success)
next
  have s: "search_issues jira (jql name 10803) = Inr issues"
    using assms(6) by (simp only: jql_10803)
  have u: "\<forall>i \<in> set issues.
             update i (''customfield_'' @ str_int 10803)
               ''Success (automated regression test)'' = None"
    using assms(7) by (simp add: str_int_10803)
  show "update_jira_status w a name 10803 ''Success (automated regression test)'' =
           ([LogInfo ''Searching for Jira issues...'',
             JiraLogin (jira_url a) (jira_user a) (jira_passwd a),
             LogInfo ''Successfully logged into jira'',
             JiraSearch (''fixVersion='' @ name @ '' AND cf[10803]='' @ [CHR 0x22]
                           @ ''Pending automated test'' @ [CHR 0x22])] @
            (if issues = [] then [LogInfo (''No issues found in release: '' @ name)]
             else [LogInfo (''Updating '' @ str_nat (length issues)
                             @ '' Jira issues to Success (automated regression test)'')] @
                  map (\<lambda>i. IssueUpdate (key i) ''customfield_10803''
                              ''Success (automated regression test)'') issues @
                  [LogInfo (str_nat (length issues) @ '' Jira issues were updated'')]),
            Inr ())"
    using update_jira_status_found [OF assms(5) s u]
    by (simp only: jql_10803 str_int_10803) simp
qed

theorem labelled_success_updates_found_issues_witness:
  "task1_check_jenkins_release
     (sample_world (sample_reply (sample_build ''Release-2.3'' (PStr ''SUCCESS'')))
        (Inr (sample_client [sample_issue ''ECS2-2087'', sample_issue ''ECS2-2090''])))
     sample_args =
   ([LogInfo ''Fetching Jenkins data from http://jenkins/job/release/lastBuild/'',
     HttpGet ''http://jenkins/job/release/lastBuild/api/json'' 60,
     LogInfo ''Searching for Jira issues...'',
     JiraLogin (Some ''http://jira'') (Some ''robot'') (Some ''secret''),
     LogInfo ''Successfully logged into jira'',
     JiraSearch (''fixVersion=Release-2.3 AND cf[10803]='' @ [CHR 0x22]
                   @ ''Pending automated test'' @ [CHR 0x22]),
     LogInfo ''Updating 2 Jira issues to Success (automated regression test)'',
     IssueUpdate ''ECS2-2087'' ''customfield_10803'' ''Success (automated regression test)'',
     IssueUpdate ''ECS2-2090'' ''customfield_10803'' ''Success (automated regression test)'',
     LogInfo ''2 Jira issues were updated''], Inr ())"
proof -
  let ?issues = "[sample_issue ''ECS2-2087'', sample_issue ''ECS2-2090'']"
  let ?w = "sample_world (sample_reply (sample_build ''Release-2.3'' (PStr ''SUCCESS'')))
              (Inr (sample_client ?issues))"
  have l: "JIRA ?w (jira_url sample_args) (jira_user sample_args, jira_passwd sample_args) =
             Inr (sample_client ?issues)"
    by (simp add: sample_world_def)
  have s: "search_issues (sample_client ?issues)
             (''fixVersion='' @ ''Release-2.3'' @ '' AND cf[10803]='' @ [CHR 0x22]
                @ ''Pending automated test'' @ [CHR 0x22]) = Inr ?issues"
    by (simp add: sample_client_def)
  have u: "\<forall>i \<in> set ?issues.
             update i ''customfield_10803'' ''Success (automated regression test)'' = None"
    by (simp add: sample_issue_def)
  show ?thesis
    using labelled_success_updates_found_issues
            [OF sample_jenkins_query sample_displayName not_match_Release sample_result l s u]
    by (simp add: sample_args_def sample_issue_def str_nat_small digit_char_def)
qed

subsection \<open>Login failure\<close>

text \<open>
  Claim C2. When the login raises \<open>JIRAError\<close>, the error is caught and logged and no
  search or update is made, but \<open>jira_login\<close> returns \<open>None\<close> and the call of
  \<open>search_issues\<close> on it raises \<open>AttributeError\<close>, which leaves
  \<open>update_jira_status\<close> and \<open>task1_check_jenkins_release\<close>: the run does not
  continue to completion. Evaluated on a labelled successful build named Release-2.3.
\<close>

theorem jira_login_failure_raises_AttributeError:
  "task1_check_jenkins_release
     (sample_world (sample_reply (sample_build ''Release-2.3'' (PStr ''SUCCESS'')))
        (Inl (JIRAError ''HTTP 401'')))
     sample_args =
   ([LogInfo ''Fetching Jenkins data from http://jenkins/job/release/lastBuild/'',
     HttpGet ''http://jenkins/job/release/lastBuild/api/json'' 60,
     LogInfo ''Searching for Jira issues...'',
     JiraLogin (Some ''http://jira'') (Some ''robot'') (Some ''secret''),
     LogError ''Login to JIRA failed because HTTP 401''],
    Inl (AttributeError ''search_issues''))"
proof -
  let ?w = "sample_world (sample_reply (sample_build ''Release-2.3'' (PStr ''SUCCESS'')))
              (Inl (JIRAError ''HTTP 401''))"
  have l: "JIRA ?w (jira_url sample_args) (jira_user sample_args, jira_passwd sample_args) =
             Inl (JIRAError ''HTTP 401'')"
    by (simp add: sample_world_def)
  have "task1_check_jenkins_release ?w sample_args =
          ([LogInfo ''Fetching Jenkins data from http://jenkins/job/release/lastBuild/'',
            HttpGet ''http://jenkins/job/release/lastBuild/api/json'' 60] @
           [LogInfo ''Searching for Jira issues...'',
            JiraLogin (jira_url sample_args) (jira_user sample_args) (jira_passwd sample_args),
            LogError (''Login to JIRA failed because '' @ ''HTTP 401'')],
           Inl (AttributeError ''search_issues''))"
    using task1_labelled_success
            [OF sample_jenkins_query sample_displayName not_match_Release sample_result]
    by (simp only: update_jira_status_login_failed [OF l] fst_conv snd_conv)
  then show ?thesis
    by (simp add: sample_args_def)
qed

subsection \<open>Unlabelled builds\<close>

text \<open>
  Claim C3. A build whose display name matches the build number pattern is unlabelled: one
  message is logged after the fetch, the run ends normally, and no call to Jira is made.
\<close>

theorem unlabelled_build_makes_no_jira_call:
  assumes "jenkins_query w (jenkins_url a) = (ev, Inr jenkins_data)"
    and "getitem jenkins_data ''displayName'' = Inr (PStr name)"
    and "build_number_pattern_match name"
  shows "task1_check_jenkins_release w a =
           (ev @ [LogInfo (name @ '' is an unlabelled release. Nothing to do'')], Inr ()) \<and>
         filter is_jira_event (fst (task1_check_jenkins_release w a)) = []"
  using task1_unlabelled [OF assms] jenkins_query_events [OF assms(1)] by simp

theorem unlabelled_build_makes_no_jira_call_witness:
  "task1_check_jenkins_release
     (sample_world (sample_reply (sample_build ''#123'' (PStr ''SUCCESS'')))
        (Inr (sample_client [sample_issue ''ECS2-2087''])))
     sample_args =
   ([LogInfo ''Fetching Jenkins data from http://jenkins/job/release/lastBuild/'',
     HttpGet ''http://jenkins/job/release/lastBuild/api/json'' 60,
     LogInfo ''#123 is an unlabelled release. Nothing to do''], Inr ()) \<and>
   filter is_jira_event (fst (task1_check_jenkins_release
     (sample_world (sample_reply (sample_build ''#123'' (PStr ''SUCCESS'')))
        (Inr (sample_client [sample_issue ''ECS2-2087''])))
     sample_args)) = []"
  using unlabelled_build_makes_no_jira_call
          [OF sample_jenkins_query sample_displayName match_123]
  by simp

subsection \<open>Labelled builds that did not succeed\<close>

text \<open>
  Claim C4. For a labelled build whose result is anything but \<open>SUCCESS\<close>, an error is
  logged and no call to Jira is made; and whenever a run makes any call to Jira, the build
  was labelled and its result was \<open>SUCCESS\<close>.
\<close>

theorem sync_only_for_labelled_success:
  "(jenkins_query w (jenkins_url a) = (ev, Inr jenkins_data) \<and>
    getitem jenkins_data ''displayName'' = Inr (PStr name) \<and>
    \<not> build_number_pattern_match name \<and>
    getitem jenkins_data ''result'' = Inr result \<and>
    result \<noteq> PStr ''SUCCESS'' \<longrightarrow>
    task1_check_jenkins_release w a =
      (ev @ [LogError (''Labelled release: '' @ name @ '' failed. Nothing to do'')], Inr ()) \<and>
    filter is_jira_event (fst (task1_check_jenkins_release w a)) = []) \<and>
   (filter is_jira_event (fst (task1_check_jenkins_release w a)) \<noteq> [] \<longrightarrow>
    (\<exists>ev' jenkins_data' name'.
       jenkins_query w (jenkins_url a) = (ev', Inr jenkins_data') \<and>
       getitem jenkins_data' ''displayName'' = Inr (PStr name') \<and>
       \<not> build_number_pattern_match name' \<and>
       getitem jenkins_data' ''result'' = Inr (PStr ''SUCCESS'')))"
proof (intro conjI impI)
  assume h: "jenkins_query w (jenkins_url a) = (ev, Inr jenkins_data) \<and>
    getitem jenkins_data ''displayName'' = Inr (PStr name) \<and>
    \<not> build_number_pattern_match name \<and>
    getitem jenkins_data ''result'' = Inr result \<and>
    result \<noteq> PStr ''SUCCESS''"
  then have t: "task1_check_jenkins_release w a =
      (ev @ [LogError (''Labelled release: '' @ name @ '' failed. Nothing to do'')], Inr ())"
    using task1_labelled_failed by blast
  then show "task1_check_jenkins_release w a =
      (ev @ [LogError (''Labelled release: '' @ name @ '' failed. Nothing to do'')], Inr ())" .
  from h have "filter is_jira_event ev = []"
    using jenkins_query_events by blast
  with t show "filter is_jira_event (fst (task1_check_jenkins_release w a)) = []"
    by simp
next
  assume "filter is_jira_event (fst (task1_check_jenkins_release w a)) \<noteq> []"
  then show "\<exists>ev' jenkins_data' name'.
       jenkins_query w (jenkins_url a) = (ev', Inr jenkins_data') \<and>
       getitem jenkins_data' ''displayName'' = Inr (PStr name') \<and>
       \<not> build_number_pattern_match name' \<and>
       getitem jenkins_data' ''result'' = Inr (PStr ''SUCCESS'')"
    by (rule task1_jira_only_if)
qed

theorem sync_only_for_labelled_success_witness:
  "task1_check_jenkins_release
     (sample_world (sample_reply (sample_build ''Release-2.3'' (PStr ''FAILURE'')))
        (Inr (sample_client [sample_issue ''ECS2-2087''])))
     sample_args =
   ([LogInfo ''Fetching Jenkins data from http://jenkins/job/release/lastBuild/'',
     HttpGet ''http://jenkins/job/release/lastBuild/api/json'' 60,
     LogError ''Labelled release: Release-2.3 failed. Nothing to do''], Inr ()) \<and>
   (\<exists>ev jenkins_data name.
      jenkins_query
        (sample_world (sample_reply (sample_build ''Release-2.3'' (PStr ''SUCCESS'')))
           (Inr (sample_client [sample_issue ''ECS2-2087''])))
        (jenkins_url sample_args) = (ev, Inr jenkins_data) \<and>
      getitem jenkins_data ''displayName'' = Inr (PStr name) \<and>
      \<not> build_number_pattern_match name \<and>
      getitem jenkins_data ''result'' = Inr (PStr ''SUCCESS''))"
proof
  let ?w = "sample_world (sample_reply (sample_build ''Release-2.3'' (PStr ''FAILURE'')))
              (Inr (sample_client [sample_issue ''ECS2-2087'']))"
  have "PStr ''FAILURE'' \<noteq> PStr ''SUCCESS''"
    by simp
  with sync_only_for_labelled_success
         [of ?w sample_args _ "sample_build ''Release-2.3'' (PStr ''FAILURE'')"
            "''Release-2.3''" "PStr ''FAILURE''"]
       sample_jenkins_query sample_displayName not_match_Release sample_result
  show "task1_check_jenkins_release ?w sample_args =
   ([LogInfo ''Fetching Jenkins data from http://jenkins/job/release/lastBuild/'',
     HttpGet ''http://jenkins/job/release/lastBuild/api/json'' 60,
     LogError ''Labelled release: Release-2.3 failed. Nothing to do''], Inr ())"
    by simp
next
  let ?w = "sample_world (sample_reply (sample_build ''Release-2.3'' (PStr ''SUCCESS'')))
              (Inr (sample_client [sample_issue ''ECS2-2087'']))"
  have l: "JIRA ?w (jira_url sample_args) (jira_user sample_args, jira_passwd sample_args) =
             Inr (sample_client [sample_issue ''ECS2-2087''])"
    by (simp add: sample_world_def)
  have t: "task1_check_jenkins_release ?w sample_args =
          ([LogInfo ''Fetching Jenkins data from http://jenkins/job/release/lastBuild/'',
            HttpGet ''http://jenkins/job/release/lastBuild/api/json'' 60] @
           fst (update_jira_status ?w sample_args ''Release-2.3'' 10803
                  ''Success (automated regression test)''),
           snd (update_jira_status ?w sample_args ''Release-2.3'' 10803
                  ''Success (automated regression test)''))"
    by (rule task1_labelled_success
               [OF sample_jenkins_query sample_displayName not_match_Release sample_result])
  have "filter is_jira_event (fst (task1_check_jenkins_release ?w sample_args)) \<noteq> []"
    by (simp add: t update_jira_status_def jira_login_ok [OF l] Let_def
        split: sum.splits prod.splits)
  with sync_only_for_labelled_success [of ?w sample_args]
  show "\<exists>ev jenkins_data name.
      jenkins_query ?w (jenkins_url sample_args) = (ev, Inr jenkins_data) \<and>
      getitem jenkins_data ''displayName'' = Inr (PStr name) \<and>
      \<not> build_number_pattern_match name \<and>
      getitem jenkins_data ''result'' = Inr (PStr ''SUCCESS'')"
    by blast
qed

subsection \<open>Errors of the Jenkins fetch\<close>

text \<open>
  Claim C5. When \<open>requests.get\<close> raises (unreachable or malformed endpoint, timeout),
  or \<open>raise_for_status\<close> raises (an error status), or the body cannot be decoded, the same
  exception leaves \<open>task1_check_jenkins_release\<close> uncaught, after the request and before
  any call to Jira.
\<close>

theorem jenkins_fetch_error_propagates:
  assumes "jenkins_url a = Some u"
    and "endswith u ''/''"
    and "requests_get w (u @ ''api/json'') 60 = Inl e \<or>
         (\<exists>r. requests_get w (u @ ''api/json'') 60 = Inr r \<and>
              (raise_for_status r = Some e \<or> raise_for_status r = None \<and> json r = Inl e))"
  shows "task1_check_jenkins_release w a =
           ([LogInfo (''Fetching Jenkins data from '' @ u),
             HttpGet (u @ ''api/json'') 60], Inl e) \<and>
         filter is_jira_event (fst (task1_check_jenkins_release w a)) = []"
proof -
  have "jenkins_query w (jenkins_url a) =
          ([LogInfo (''Fetching Jenkins data from '' @ u),
            HttpGet (u @ ''api/json'') 60], Inl e)"
    using assms by (auto simp: jenkins_query_def)
  then have "task1_check_jenkins_release w a =
          ([LogInfo (''Fetching Jenkins data from '' @ u),
            HttpGet (u @ ''api/json'') 60], Inl e)"
    by (simp add: task1_check_jenkins_release_def)
  then show ?thesis by simp
qed

theorem jenkins_fetch_error_propagates_witness:
  "task1_check_jenkins_release
     (sample_world (Inr \<lparr>raise_for_status = Some (HTTPError 503), json = Inl JSONDecodeError\<rparr>)
        (Inr (sample_client [sample_issue ''ECS2-2087''])))
     sample_args =
   ([LogInfo ''Fetching Jenkins data from http://jenkins/job/release/lastBuild/'',
     HttpGet ''http://jenkins/job/release/lastBuild/api/json'' 60], Inl (HTTPError 503)) \<and>
   task1_check_jenkins_release
     (sample_world (Inl (RequestException ''timed out''))
        (Inr (sample_client [sample_issue ''ECS2-2087''])))
     sample_args =
   ([LogInfo ''Fetching Jenkins data from http://jenkins/job/release/lastBuild/'',
     HttpGet ''http://jenkins/job/release/lastBuild/api/json'' 60],
    Inl (RequestException ''timed out''))"
proof -
  have u: "jenkins_url sample_args = Some ''http://jenkins/job/release/lastBuild/''"
    by (simp add: sample_args_def)
  have s: "endswith ''http://jenkins/job/release/lastBuild/'' ''/''"
    by (simp add: endswith_def)
  let ?w1 = "sample_world
               (Inr \<lparr>raise_for_status = Some (HTTPError 503), json = Inl JSONDecodeError\<rparr>)
               (Inr (sample_client [sample_issue ''ECS2-2087'']))"
  let ?w2 = "sample_world (Inl (RequestException ''timed out''))
               (Inr (sample_client [sample_issue ''ECS2-2087'']))"
  have h1: "requests_get ?w1 (''http://jenkins/job/release/lastBuild/'' @ ''api/json'') 60 =
              Inl (HTTPError 503) \<or>
            (\<exists>r. requests_get ?w1 (''http://jenkins/job/release/lastBuild/'' @ ''api/json'') 60
                   = Inr r \<and>
                 (raise_for_status r = Some (HTTPError 503) \<or>
                  raise_for_status r = None \<and> json r = Inl (HTTPError 503)))"
    by (simp add: sample_world_def)
  have h2: "requests_get ?w2 (''http://jenkins/job/release/lastBuild/'' @ ''api/json'') 60 =
              Inl (RequestException ''timed out'') \<or>
            (\<exists>r. requests_get ?w2 (''http://jenkins/job/release/lastBuild/'' @ ''api/json'') 60
                   = Inr r \<and>
                 (raise_for_status r = Some (RequestException ''timed out'') \<or>
                  raise_for_status r = None \<and> json r = Inl (RequestException ''timed out'')))"
    by (simp add: sample_world_def)
  show ?thesis
    using jenkins_fetch_error_propagates [OF u s h1]
          jenkins_fetch_error_propagates [OF u s h2]
    by simp
qed

subsection \<open>A search without results\<close>

text \<open>
  Claim C6. When the search returns no issue, the notice "No issues found in release" is
  logged at level info, no update is issued, and \<open>update_jira_status\<close> returns normally.
\<close>

theorem no_issues_found_is_normal:
  assumes "JIRA w (jira_url a) (jira_user a, jira_passwd a) = Inr jira"
    and "search_issues jira (jql release_name customfield_number) = Inr []"
  shows "update_jira_status w a release_name customfield_number new_value =
           ([LogInfo ''Searching for Jira issues...'',
             JiraLogin (jira_url a) (jira_user a) (jira_passwd a),
             LogInfo ''Successfully logged into jira'',
             JiraSearch (jql release_name customfield_number),
             LogInfo (''No issues found in release: '' @ release_name)], Inr ()) \<and>
         filter is_issue_update
           (fst (update_jira_status w a release_name customfield_number new_value)) = []"
  using assms by (simp add: update_jira_status_def jira_login_ok)

theorem no_issues_found_is_normal_witness:
  "update_jira_status
     (sample_world (sample_reply (sample_build ''Release-2.3'' (PStr ''SUCCESS'')))
        (Inr (sample_client [])))
     sample_args ''Release-2.3'' 10803 ''Success (automated regression test)'' =
   ([LogInfo ''Searching for Jira issues...'',
     JiraLogin (Some ''http://jira'') (Some ''robot'') (Some ''secret''),
     LogInfo ''Successfully logged into jira'',
     JiraSearch (''fixVersion=Release-2.3 AND cf[10803]='' @ [CHR 0x22]
                   @ ''Pending automated test'' @ [CHR 0x22]),
     LogInfo ''No issues found in release: Release-2.3''], Inr ())"
proof -
  let ?w = "sample_world (sample_reply (sample_build ''Release-2.3'' (PStr ''SUCCESS'')))
              (Inr (sample_client []))"
  have l: "JIRA ?w (jira_url sample_args) (jira_user sample_args, jira_passwd sample_args) =
             Inr (sample_client [])"
    by (simp add: sample_world_def)
  have s: "search_issues (sample_client []) (jql ''Release-2.3'' 10803) = Inr []"
    by (simp add: sample_client_def)
  show ?thesis
    using no_issues_found_is_normal [OF l s, of "''Success (automated regression test)''"]
    by (simp add: jql_10803 sample_args_def)
qed

subsection \<open>The trailing slash\<close>

text \<open>
  Claim C7. \<open>jenkins_query\<close> fails its assertion, with no log line and no request, on
  every URL that does not end in a slash; on a URL that ends in a slash it gets past the
  assertion and performs one GET of the URL followed by \<open>api/json\<close>, with timeout 60.
\<close>

theorem jenkins_query_requires_trailing_slash:
  "(\<not> endswith u ''/'' \<longrightarrow> jenkins_query w (Some u) = ([], Inl AssertionError)) \<and>
   (endswith u ''/'' \<longrightarrow>
      fst (jenkins_query w (Some u)) =
        [LogInfo (''Fetching Jenkins data from '' @ u), HttpGet (u @ ''api/json'') 60])"
  by (simp add: jenkins_query_def Let_def split: sum.splits option.splits)

theorem jenkins_query_requires_trailing_slash_witness:
  "jenkins_query (sample_world (sample_reply (sample_build ''Release-2.3'' (PStr ''SUCCESS'')))
                    (Inr (sample_client [])))
     (Some ''http://jenkins/job/release/lastBuild'') = ([], Inl AssertionError) \<and>
   fst (jenkins_query (sample_world (sample_reply (sample_build ''Release-2.3'' (PStr ''SUCCESS'')))
                         (Inr (sample_client [])))
          (Some ''http://jenkins/job/release/lastBuild/'')) =
     [LogInfo ''Fetching Jenkins data from http://jenkins/job/release/lastBuild/'',
      HttpGet ''http://jenkins/job/release/lastBuild/api/json'' 60]"
proof -
  have n: "\<not> endswith ''http://jenkins/job/release/lastBuild'' ''/''"
    by (simp add: endswith_def)
  have y: "endswith ''http://jenkins/job/release/lastBuild/'' ''/''"
    by (simp add: endswith_def)
  show ?thesis
    using n y
      jenkins_query_requires_trailing_slash [of "''http://jenkins/job/release/lastBuild''"]
      jenkins_query_requires_trailing_slash [of "''http://jenkins/job/release/lastBuild/''"]
    by simp
qed

subsection \<open>Defaults of the command line options\<close>

text \<open>
  Claim C8. Each of the options \<open>--jenkins_url\<close>, \<open>--jira_url\<close>, \<open>--jira_user\<close> and
  \<open>--jira_passwd\<close> is declared with the value of \<open>JENKINS_URL\<close>, \<open>JIRA_URL\<close>,
  \<open>JIRA_USER\<close> and \<open>JIRA_PASSWD\<close> as its default, and takes that value when it is not
  supplied on the command line.
\<close>

theorem options_default_to_environment:
  "(cli ''--jenkins_url'' = None \<longrightarrow>
      jenkins_url (parse_args environ cli) = environ ''JENKINS_URL'') \<and>
   (cli ''--jira_url'' = None \<longrightarrow>
      jira_url (parse_args environ cli) = environ ''JIRA_URL'') \<and>
   (cli ''--jira_user'' = None \<longrightarrow>
      jira_user (parse_args environ cli) = environ ''JIRA_USER'') \<and>
   (cli ''--jira_passwd'' = None \<longrightarrow>
      jira_passwd (parse_args environ cli) = environ ''JIRA_PASSWD'') \<and>
   map (\<lambda>a. (flag a, default_value a)) (init_arguments environ) =
     [(''--jenkins_url'', environ ''JENKINS_URL''), (''--jira_url'', environ ''JIRA_URL''),
      (''--jira_user'', environ ''JIRA_USER''), (''--jira_passwd'', environ ''JIRA_PASSWD'')]"
  by (simp add: parse_args_def parse_option_def init_arguments_def getenv_def Let_def)

theorem options_default_to_environment_witness:
  "parse_args [''JENKINS_URL'' \<mapsto> ''http://jenkins/job/release/lastBuild/'',
               ''JIRA_URL'' \<mapsto> ''http://jira'', ''JIRA_PASSWD'' \<mapsto> ''secret'']
     Map.empty =
   \<lparr>jenkins_url = Some ''http://jenkins/job/release/lastBuild/'',
    jira_url = Some ''http://jira'', jira_user = None, jira_passwd = Some ''secret''\<rparr>"
  using options_default_to_environment
          [of Map.empty "[''JENKINS_URL'' \<mapsto> ''http://jenkins/job/release/lastBuild/'',
                          ''JIRA_URL'' \<mapsto> ''http://jira'', ''JIRA_PASSWD'' \<mapsto> ''secret'']"]
  by (cases "parse_args [''JENKINS_URL'' \<mapsto> ''http://jenkins/job/release/lastBuild/'',
               ''JIRA_URL'' \<mapsto> ''http://jira'', ''JIRA_PASSWD'' \<mapsto> ''secret'']
     Map.empty") simp

subsection \<open>The bare hash\<close>

text \<open>
  Claim C9. The display name \<open>#\<close> matches the build number pattern, as does a hash followed
  by any number of digits; a build with that name is unlabelled and skipped, without any call
  to Jira.
\<close>

theorem bare_hash_is_unlabelled:
  "build_number_pattern_match ''#'' \<and>
   (list_all is_digit ds \<longrightarrow> build_number_pattern_match (CHR ''#'' # ds)) \<and>
   (jenkins_query w (jenkins_url a) = (ev, Inr jenkins_data) \<and>
    getitem jenkins_data ''displayName'' = Inr (PStr ''#'') \<longrightarrow>
    task1_check_jenkins_release w a =
      (ev @ [LogInfo ''# is an unlabelled release. Nothing to do''], Inr ()) \<and>
    filter is_jira_event (fst (task1_check_jenkins_release w a)) = [])"
proof (intro conjI impI)
  show m: "build_number_pattern_match ''#''"
    by (simp add: build_number_pattern_match_def)
  assume "list_all is_digit ds"
  then show "build_number_pattern_match (CHR ''#'' # ds)"
    by (rule match_digits)
next
  have m: "build_number_pattern_match ''#''"
    by (simp add: build_number_pattern_match_def)
  assume h: "jenkins_query w (jenkins_url a) = (ev, Inr jenkins_data) \<and>
    getitem jenkins_data ''displayName'' = Inr (PStr ''#'')"
  then have t: "task1_check_jenkins_release w a =
      (ev @ [LogInfo (''#'' @ '' is an unlabelled release. Nothing to do'')], Inr ())"
    using task1_unlabelled m by blast
  then show "task1_check_jenkins_release w a =
      (ev @ [LogInfo ''# is an unlabelled release. Nothing to do''], Inr ())"
    by simp
  from h have "filter is_jira_event ev = []"
    using jenkins_query_events by blast
  with t show "filter is_jira_event (fst (task1_check_jenkins_release w a)) = []"
    by simp
qed

theorem bare_hash_is_unlabelled_witness:
  "build_number_pattern_match ''#2024'' \<and>
   task1_check_jenkins_release
     (sample_world (sample_reply (sample_build ''#'' (PStr ''SUCCESS'')))
        (Inr (sample_client [sample_issue ''ECS2-2087''])))
     sample_args =
   ([LogInfo ''Fetching Jenkins data from http://jenkins/job/release/lastBuild/'',
     HttpGet ''http://jenkins/job/release/lastBuild/api/json'' 60,
     LogInfo ''# is an unlabelled release. Nothing to do''], Inr ())"
proof -
  have d: "list_all is_digit ''2024''"
    by (simp add: is_digit_def)
  let ?w = "sample_world (sample_reply (sample_build ''#'' (PStr ''SUCCESS'')))
              (Inr (sample_client [sample_issue ''ECS2-2087'']))"
  show ?thesis
    using d bare_hash_is_unlabelled [of "''2024''" ?w sample_args _ "sample_build ''#'' (PStr ''SUCCESS'')"]
      sample_jenkins_query [of "sample_build ''#'' (PStr ''SUCCESS'')"
         "Inr (sample_client [sample_issue ''ECS2-2087''])"]
      sample_displayName [of "''#''" "PStr ''SUCCESS''"]
    by simp
qed

subsection \<open>The field and the value are fixed\<close>

text \<open>
  Claim C10. Whatever the arguments and the answers of the services, every update a run
  issues sets \<open>customfield_10803\<close> to "Success (automated regression test)" and every
  search filters on \<open>cf[10803]\<close>; for a labelled successful build the run is the call of
  \<open>update_jira_status\<close> with field number 10803 and that value.
\<close>

theorem sync_uses_fixed_field_and_value:
  "(\<forall>e \<in> set (fst (task1_check_jenkins_release w a)).
      (\<forall>k f v. e = IssueUpdate k f v \<longrightarrow>
         f = ''customfield_10803'' \<and> v = ''Success (automated regression test)'') \<and>
      (\<forall>q. e = JiraSearch q \<longrightarrow>
         (\<exists>name. q = ''fixVersion='' @ name @ '' AND cf[10803]='' @ [CHR 0x22]
                        @ ''Pending automated test'' @ [CHR 0x22]))) \<and>
   (jenkins_query w (jenkins_url a) = (ev, Inr jenkins_data) \<and>
    getitem jenkins_data ''displayName'' = Inr (PStr name) \<and>
    \<not> build_number_pattern_match name \<and>
    getitem jenkins_data ''result'' = Inr (PStr ''SUCCESS'') \<longrightarrow>
    task1_check_jenkins_release w a =
      (ev @ fst (update_jira_status w a name 10803 ''Success (automated regression test)''),
       snd (update_jira_status w a name 10803 ''Success (automated regression test)'')))"
proof (intro conjI ballI allI impI)
  fix e k f v
  assume e: "e \<in> set (fst (task1_check_jenkins_release w a))" and u: "e = IssueUpdate k f v"
  then obtain n where
    "e \<in> set (fst (update_jira_status w a n 10803 ''Success (automated regression test)''))"
    using task1_jira_event_origin [of e w a] by auto
  from update_jira_status_events [OF this] u
  show "f = ''customfield_10803''" and "v = ''Success (automated regression test)''"
    by (simp_all add: str_int_10803)
next
  fix e q
  assume e: "e \<in> set (fst (task1_check_jenkins_release w a))" and u: "e = JiraSearch q"
  then obtain n where
    "e \<in> set (fst (update_jira_status w a n 10803 ''Success (automated regression test)''))"
    using task1_jira_event_origin [of e w a] by auto
  from update_jira_status_events [OF this] u have "q = jql n 10803" by simp
  then show "\<exists>name. q = ''fixVersion='' @ name @ '' AND cf[10803]='' @ [CHR 0x22]
                        @ ''Pending automated test'' @ [CHR 0x22]"
    using jql_10803 by blast
next
  assume "jenkins_query w (jenkins_url a) = (ev, Inr jenkins_data) \<and>
    getitem jenkins_data ''displayName'' = Inr (PStr name) \<and>
    \<not> build_number_pattern_match name \<and>
    getitem jenkins_data ''result'' = Inr (PStr ''SUCCESS'')"
  then show "task1_check_jenkins_release w a =
      (ev @ fst (update_jira_status w a name 10803 ''Success (automated regression test)''),
       snd (update_jira_status w a name 10803 ''Success (automated regression test)''))"
    using task1_labelled_success by blast
qed

theorem sync_uses_fixed_field_and_value_witness:
  "task1_check_jenkins_release
     (sample_world (sample_reply (sample_build ''Release-2.3'' (PStr ''SUCCESS'')))
        (Inr (sample_client [sample_issue ''ECS2-2087''])))
     sample_args =
   ([LogInfo ''Fetching Jenkins data from http://jenkins/job/release/lastBuild/'',
     HttpGet ''http://jenkins/job/release/lastBuild/api/json'' 60,
     LogInfo ''Searching for Jira issues...'',
     JiraLogin (Some ''http://jira'') (Some ''robot'') (Some ''secret''),
     LogInfo ''Successfully logged into jira'',
     JiraSearch (''fixVersion=Release-2.3 AND cf[10803]='' @ [CHR 0x22]
                   @ ''Pending automated test'' @ [CHR 0x22]),
     LogInfo ''Updating 1 Jira issues to Success (automated regression test)'',
     IssueUpdate ''ECS2-2087'' ''customfield_10803'' ''Success (automated regression test)'',
     LogInfo ''1 Jira issues were updated''], Inr ())"
proof -
  let ?w = "sample_world (sample_reply (sample_build ''Release-2.3'' (PStr ''SUCCESS'')))
              (Inr (sample_client [sample_issue ''ECS2-2087'']))"
  have "jenkins_query ?w (jenkins_url sample_args) =
          ([LogInfo ''Fetching Jenkins data from http://jenkins/job/release/lastBuild/'',
            HttpGet ''http://jenkins/job/release/lastBuild/api/json'' 60],
           Inr (sample_build ''Release-2.3'' (PStr ''SUCCESS''))) \<and>
        getitem (sample_build ''Release-2.3'' (PStr ''SUCCESS'')) ''displayName'' =
          Inr (PStr ''Release-2.3'') \<and>
        \<not> build_number_pattern_match ''Release-2.3'' \<and>
        getitem (sample_build ''Release-2.3'' (PStr ''SUCCESS'')) ''result'' =
          Inr (PStr ''SUCCESS'')"
    using sample_jenkins_query sample_displayName not_match_Release sample_result by simp
  with sync_uses_fixed_field_and_value
         [of ?w sample_args _ "sample_build ''Release-2.3'' (PStr ''SUCCESS'')"
            "''Release-2.3''"]
  have "task1_check_jenkins_release ?w sample_args =
          ([LogInfo ''Fetching Jenkins data from http://jenkins/job/release/lastBuild/'',
            HttpGet ''http://jenkins/job/release/lastBuild/api/json'' 60] @
           fst (update_jira_status ?w sample_args ''Release-2.3'' 10803
                  ''Success (automated regression test)''),
           snd (update_jira_status ?w sample_args ''Release-2.3'' 10803
                  ''Success (automated regression test)''))"
    by blast
  then show ?thesis
    by (simp add: sample_update_jira_status)
qed

end
